theory Spec2Isabelle
  imports Complex_Main
begin

section \<open>Data model of \<open>static/script.js\<close>\<close>

text \<open>
  A JSON value, as \<open>response.json()\<close> yields it. \<open>JNum\<close> carries the mathematical
  value of the number as written in the body; the script works with the binary64 number
  nearest to it (\<open>fl64\<close> below). An object is the list of its members in the order of
  the body.
\<close>

datatype json =
    JNull
  | JBool bool
  | JNum real
  | JStr string
  | JArr "json list"
  | JObj "(string \<times> json) list"

text \<open>
  One detection with the types of the service's interface,
  \<open>{box: [x, y, w, h], label, confidence}\<close>: what the \<open>forEach\<close> callback of
  \<open>drawPredictions\<close> holds in \<open>x, y, w, h\<close>, \<open>label\<close> and \<open>confidence\<close> when every field
  has its type.
\<close>

record detection =
  box :: "real \<times> real \<times> real \<times> real"
  label :: string
  confidence :: real

text \<open>
  The 2D drawing context \<open>ctx\<close> of the visible canvas. Its pixel content is represented
  by the display list \<open>surface\<close>: the drawing calls issued since the canvas was last cleared
  as a whole, each with the context attributes it was painted with. Colours and fonts are
  the strings the script assigns. \<open>DrawImage\<close> records the stream the video element
  showed when its frame was copied.
\<close>

datatype draw_op =
    DrawImage "nat option"
  | StrokeRect real real real real string real
  | FillRect real real real real string
  | FillText string real real string string

record context2d =
  strokeStyle :: string
  fillStyle :: string
  lineWidth :: real
  font :: string
  surface :: "draw_op list"

text \<open>The cleanup calls the script makes to the browser, as they are issued.\<close>

datatype cleanup_call = ClearIntervalCall "nat option" | TrackStopCall nat

text \<open>
  The module-level variables (lines 14 to 17), the parts of the page the script touches,
  and the browser-side bookkeeping of what the script has requested: camera tracks that
  are live, interval timers that are set, queued animation-frame callbacks, the promises
  the two \<open>async\<close> functions are suspended on, and the log of cleanup calls.
  \<open>latestPredictions\<close> holds whatever JSON value the last response carried.
\<close>

record state =
  stream :: "nat option"
  isDetecting :: bool
  latestPredictions :: json
  predictionIntervalId :: "nat option"
  statusText :: string
  startDisabled :: bool
  stopDisabled :: bool
  videoSrc :: "nat option"
  metadataListeners :: nat
  ctx :: context2d
  liveTracks :: "nat set"
  timers :: "nat set"
  nextTimer :: nat
  rafQueue :: nat
  gumPending :: nat
  fetchPending :: nat
  bodyPending :: nat
  cleanupCalls :: "cleanup_call list"

text \<open>
  What the browser supplies to the overlay renderer: \<open>measureText\<close> stands for
  \<open>ctx.measureText(text).width\<close>, which depends on the context's current font and on the
  text; \<open>coerced\<close> stands for what the drawing calls of one \<open>forEach\<close> round do to the
  context when a field of the element has another type than the interface's, so that
  JavaScript converts it (nothing in that round can throw once \<open>box\<close> has been
  destructured).
\<close>

record browser =
  measureText :: "string \<Rightarrow> string \<Rightarrow> real"
  coerced :: "json \<Rightarrow> context2d \<Rightarrow> context2d"

datatype error = TypeError | HttpError nat | SyntaxError

section \<open>Numbers\<close>

text \<open>
  Rounding of a real to the nearest binary64 number, ties to even: 53 significant bits,
  exponents from -1022 (below it the spacing stays \<open>2\<^sup>-\<^sup>1\<^sup>0\<^sup>7\<^sup>4\<close>). Magnitudes from
  \<open>2\<^sup>1\<^sup>0\<^sup>2\<^sup>4\<close> on, which JavaScript takes to \<open>Infinity\<close>, are rounded with the same
  rule and are outside what is modelled.
\<close>

fun bit_length :: "nat \<Rightarrow> nat" where
  "bit_length n = (if n = 0 then 0 else Suc (bit_length (n div 2)))"

declare bit_length.simps [simp del]

text \<open>For \<open>a > 0\<close>, the integer \<open>e\<close> with \<open>2\<^sup>e \<le> a < 2\<^sup>e\<^sup>+\<^sup>1\<close>.\<close>

definition exponent2 :: "real \<Rightarrow> int" where
  "exponent2 a =
     (if 1 \<le> a then int (bit_length (nat \<lfloor>a\<rfloor>)) - 1
      else - int (bit_length (nat (\<lceil>1 / a\<rceil> - 1))))"

definition pow2 :: "int \<Rightarrow> real" where
  "pow2 k = (if 0 \<le> k then 2 ^ nat k else 1 / 2 ^ nat (- k))"

definition round_half_even :: "real \<Rightarrow> int" where
  "round_half_even q =
     (let f = \<lfloor>q\<rfloor>; r = q - of_int f
      in if r < 1 / 2 then f else if 1 / 2 < r then f + 1 else if even f then f else f + 1)"

definition fl64 :: "real \<Rightarrow> real" where
  "fl64 x =
     (if x = 0 then 0
      else let a = \<bar>x\<bar>;
               e = max (exponent2 a) (- 1022);
               u = pow2 (e - 52)
           in sgn x * of_int (round_half_even (a / u)) * u)"

text \<open>\<open>Math.round\<close> rounds to the nearest integer, halves towards plus infinity.\<close>

definition js_round :: "real \<Rightarrow> int" where
  "js_round x = \<lfloor>x + 1 / 2\<rfloor>"

fun show_nat :: "nat \<Rightarrow> string" where
  "show_nat n =
     (if n < 10 then [''0123456789'' ! n]
      else show_nat (n div 10) @ [''0123456789'' ! (n mod 10)])"

declare show_nat.simps [simp del]

text \<open>
  What a template literal prints for an integer-valued number (below \<open>10\<^sup>2\<^sup>1\<close> in
  absolute value, where JavaScript prints all the digits).
\<close>

definition js_int_string :: "int \<Rightarrow> string" where
  "js_int_string i = (if i < 0 then ''-'' @ show_nat (nat (- i)) else show_nat (nat i))"

section \<open>Canvas operations\<close>

definition drawImage :: "nat option \<Rightarrow> context2d \<Rightarrow> context2d" where
  "drawImage src c = c\<lparr>surface := surface c @ [DrawImage src]\<rparr>"

definition strokeRect :: "real \<Rightarrow> real \<Rightarrow> real \<Rightarrow> real \<Rightarrow> context2d \<Rightarrow> context2d" where
  "strokeRect x y w h c =
     c\<lparr>surface := surface c @ [StrokeRect x y w h (strokeStyle c) (lineWidth c)]\<rparr>"

definition fillRect :: "real \<Rightarrow> real \<Rightarrow> real \<Rightarrow> real \<Rightarrow> context2d \<Rightarrow> context2d" where
  "fillRect x y w h c = c\<lparr>surface := surface c @ [FillRect x y w h (fillStyle c)]\<rparr>"

definition fillText :: "string \<Rightarrow> real \<Rightarrow> real \<Rightarrow> context2d \<Rightarrow> context2d" where
  "fillText t x y c = c\<lparr>surface := surface c @ [FillText t x y (fillStyle c) (font c)]\<rparr>"

text \<open>
  \<open>ctx.clearRect(0, 0, canvas.width, canvas.height)\<close> erases the whole canvas and leaves
  the context attributes (styles, line width, font) as they are.
\<close>

definition clearRect :: "context2d \<Rightarrow> context2d" where
  "clearRect c = c\<lparr>surface := []\<rparr>"

section \<open>Overlay renderer: \<open>drawPredictions\<close> (lines 124 to 149)\<close>

text \<open>
  Lines 127 to 143 of the \<open>forEach\<close> callback, for an element whose fields have the
  interface's types. Every arithmetic result is a binary64 number.
\<close>

definition draw_pred :: "(string \<Rightarrow> string \<Rightarrow> real) \<Rightarrow> detection \<Rightarrow> context2d \<Rightarrow> context2d" where
  "draw_pred measure_text pred c0 =
     (case box pred of (x, y, w, h) \<Rightarrow>
        let c1 = c0\<lparr>strokeStyle := (if label pred = ''Original'' then ''#00FF00'' else ''#FF0000'')\<rparr>;
            c2 = c1\<lparr>lineWidth := 3\<rparr>;
            c3 = strokeRect x y w h c2;
            text = label pred @ '': '' @
                   js_int_string (js_round (fl64 (confidence pred * 100))) @ ''%'';
            textBgHeight = 24;
            c4 = c3\<lparr>fillStyle := strokeStyle c3\<rparr>;
            c5 = fillRect x (if y > textBgHeight then fl64 (y - textBgHeight) else y)
                   (fl64 (measure_text (font c4) text + 10)) textBgHeight c4;
            c6 = c5\<lparr>fillStyle := ''#FFFFFF''\<rparr>;
            c7 = c6\<lparr>font := ''18px Arial''\<rparr>
        in fillText text (fl64 (x + 5)) (if y > textBgHeight then fl64 (y - 5) else 18) c7)"

text \<open>
  Property access \<open>pred.box\<close>, \<open>pred.label\<close>, \<open>pred.confidence\<close> on a JSON value other
  than \<open>null\<close>: the member of an object (the last one of that name), and \<open>undefined\<close>
  (\<open>None\<close>) on everything else.
\<close>

definition get_prop :: "json \<Rightarrow> string \<Rightarrow> json option" where
  "get_prop p k = (case p of JObj kvs \<Rightarrow> map_of (rev kvs) k | _ \<Rightarrow> None)"

text \<open>
  Line 126, \<open>const [x, y, w, h] = pred.box\<close>, throws a \<open>TypeError\<close> when \<open>pred\<close> is
  \<open>null\<close> and when \<open>pred.box\<close> is not iterable: only arrays and strings are.
\<close>

definition elem_throws :: "json \<Rightarrow> bool" where
  "elem_throws p =
     (case p of
        JNull \<Rightarrow> True
      | _ \<Rightarrow> (case get_prop p ''box'' of
                 Some (JArr xs) \<Rightarrow> False
               | Some (JStr t) \<Rightarrow> False
               | _ \<Rightarrow> True))"

text \<open>The element read with the interface's types, its numbers as binary64 numbers.\<close>

definition as_detection :: "json \<Rightarrow> detection option" where
  "as_detection p =
     (case (get_prop p ''box'', get_prop p ''label'', get_prop p ''confidence'') of
        (Some (JArr (JNum x # JNum y # JNum w # JNum h # rest)), Some (JStr l), Some (JNum c)) \<Rightarrow>
          Some \<lparr>box = (fl64 x, fl64 y, fl64 w, fl64 h), label = l, confidence = fl64 c\<rparr>
      | _ \<Rightarrow> None)"

text \<open>One round of the \<open>forEach\<close> callback (lines 125 to 144).\<close>

definition draw_elem :: "browser \<Rightarrow> json \<Rightarrow> context2d \<Rightarrow> error + context2d" where
  "draw_elem b pred c =
     (if elem_throws pred then Inl TypeError
      else case as_detection pred of
             Some d \<Rightarrow> Inr (draw_pred (measureText b) d c)
           | None \<Rightarrow> Inr (coerced b pred c))"

text \<open>
  \<open>predictions.forEach\<close> over an array: the rounds in order, up to the first that throws.
  The context is returned as the rounds before the exception left it.
\<close>

fun forEach_draw :: "browser \<Rightarrow> json list \<Rightarrow> context2d \<Rightarrow> context2d \<times> error option" where
  "forEach_draw b [] c = (c, None)"
| "forEach_draw b (p # ps) c =
     (case draw_elem b p c of
        Inl err \<Rightarrow> (c, Some err)
      | Inr c' \<Rightarrow> forEach_draw b ps c')"

text \<open>
  \<open>drawPredictions\<close>: the state it leaves and the exception it throws, if any. On a value
  that is not an array, \<open>predictions.forEach\<close> is not a function (or \<open>predictions\<close> is
  \<open>null\<close>) and the call throws at once.
\<close>

definition drawPredictions :: "browser \<Rightarrow> json \<Rightarrow> state \<Rightarrow> state \<times> error option" where
  "drawPredictions b predictions s =
     (case predictions of
        JArr ps \<Rightarrow>
          (case forEach_draw b ps (ctx s) of
             (c, Some err) \<Rightarrow> (s\<lparr>ctx := c\<rparr>, Some err)
           | (c, None) \<Rightarrow>
               let s1 = s\<lparr>ctx := c\<rparr>
               in (if isDetecting s1
                   then s1\<lparr>statusText := (if length ps > 0 then ''Detection active.''
                                           else ''No face detected. Looking...'')\<rparr>
                   else s1, None))
      | _ \<Rightarrow> (s, Some TypeError))"

section \<open>Browser services used by the script\<close>

text \<open>
  \<open>setInterval\<close> registers a timer under a fresh identifier and returns it;
  \<open>clearInterval\<close> removes the timer with the given identifier and ignores \<open>null\<close>
  and identifiers that are not set.
\<close>

definition setInterval :: "state \<Rightarrow> nat \<times> state" where
  "setInterval s =
     (nextTimer s, s\<lparr>timers := insert (nextTimer s) (timers s), nextTimer := nextTimer s + 1\<rparr>)"

definition clearInterval :: "nat option \<Rightarrow> state \<Rightarrow> state" where
  "clearInterval i s =
     (let s1 = s\<lparr>cleanupCalls := cleanupCalls s @ [ClearIntervalCall i]\<rparr>
      in case i of None \<Rightarrow> s1 | Some n \<Rightarrow> s1\<lparr>timers := timers s1 - {n}\<rparr>)"

text \<open>
  \<open>stream.getTracks().forEach(track => track.stop())\<close>: the call is made, and the
  stream's tracks are live no longer.
\<close>

definition stopTracks :: "nat \<Rightarrow> state \<Rightarrow> state" where
  "stopTracks sid s =
     s\<lparr>cleanupCalls := cleanupCalls s @ [TrackStopCall sid], liveTracks := liveTracks s - {sid}\<rparr>"

text \<open>\<open>response.ok\<close> of the Fetch API: the status is in the range 200 to 299.\<close>

definition response_ok :: "nat \<Rightarrow> bool" where
  "response_ok status = (200 \<le> status \<and> status \<le> 299)"

section \<open>Session controller\<close>

text \<open>
  \<open>stopDetection\<close> (lines 52 to 70). It assigns neither \<open>stream\<close> nor
  \<open>predictionIntervalId\<close>: the variables keep the handles of the stream and the timer it
  has released.
\<close>

definition stopDetection :: "state \<Rightarrow> state" where
  \<open>stopDetection s =
     (let s1 = s\<lparr>isDetecting := False\<rparr>;
          s2 = s1\<lparr>startDisabled := False\<rparr>;
          s3 = s2\<lparr>stopDisabled := True\<rparr>;
          s4 = s3\<lparr>statusText := ''Click "Start Detection" to begin.''\<rparr>;
          s5 = clearInterval (predictionIntervalId s4) s4;
          s6 = (case stream s5 of None \<Rightarrow> s5 | Some sid \<Rightarrow> stopTracks sid s5);
          s7 = s6\<lparr>videoSrc := None\<rparr>;
          s8 = s7\<lparr>latestPredictions := JArr []\<rparr>
      in s8\<lparr>ctx := clearRect (ctx s8)\<rparr>)\<close>

text \<open>
  \<open>startDetection\<close> (lines 26 to 47) runs in three pieces. The first runs when the
  function is called and ends at \<open>await navigator.mediaDevices.getUserMedia\<close>.
\<close>

definition startDetection :: "state \<Rightarrow> state" where
  "startDetection s =
     (let s1 = s\<lparr>isDetecting := True\<rparr>;
          s2 = s1\<lparr>startDisabled := True\<rparr>;
          s3 = s2\<lparr>stopDisabled := False\<rparr>;
          s4 = s3\<lparr>statusText := ''Initializing Webcam...''\<rparr>
      in s4\<lparr>gumPending := gumPending s4 + 1\<rparr>)"

text \<open>The rest of the \<open>try\<close> block, resumed when the camera request is granted.\<close>

definition startDetection_granted :: "nat \<Rightarrow> state \<Rightarrow> state" where
  "startDetection_granted sid s =
     (let s1 = s\<lparr>stream := Some sid\<rparr>;
          s2 = s1\<lparr>videoSrc := stream s1\<rparr>
      in s2\<lparr>metadataListeners := metadataListeners s2 + 1\<rparr>)"

text \<open>The \<open>catch\<close> block, run when the camera request is rejected.\<close>

definition startDetection_denied :: "state \<Rightarrow> state" where
  "startDetection_denied s =
     (let s1 = s\<lparr>statusText :=
                 ''<strong>Error:</strong> Could not access webcam. Please check permissions.''\<rparr>
      in stopDetection s1)"

text \<open>
  The \<open>loadedmetadata\<close> listener registered at line 35. \<open>video.play()\<close> changes nothing
  that is modelled here.
\<close>

definition on_loadedmetadata :: "state \<Rightarrow> state" where
  "on_loadedmetadata s =
     (let s1 = s\<lparr>statusText := ''Webcam active. Detecting...''\<rparr>;
          s2 = s1\<lparr>rafQueue := rafQueue s1 + 1\<rparr>;
          (i, s3) = setInterval s2
      in s3\<lparr>predictionIntervalId := Some i\<rparr>)"

section \<open>Render loop (lines 75 to 85)\<close>

text \<open>
  An exception thrown by \<open>drawPredictions\<close> at line 81 is not caught: the callback ends
  there, with what it has drawn so far, and line 84 is not reached.
\<close>

definition renderLoop :: "browser \<Rightarrow> state \<Rightarrow> state" where
  "renderLoop b s =
     (if \<not> isDetecting s then s
      else let s1 = s\<lparr>ctx := drawImage (videoSrc s) (ctx s)\<rparr>
           in case drawPredictions b (latestPredictions s1) s1 of
                (s2, Some err) \<Rightarrow> s2
              | (s2, None) \<Rightarrow> s2\<lparr>rafQueue := rafQueue s2 + 1\<rparr>)"

section \<open>Prediction loop (lines 90 to 119)\<close>

text \<open>
  What \<open>await fetch(...)\<close> and \<open>await response.json()\<close> settle to. A body that parses
  yields its JSON value, whatever it is.
\<close>

datatype fetch_outcome = NetworkFailure | Response nat

datatype body_outcome = Malformed | Parsed json

text \<open>
  The part that runs when the timer fires, up to \<open>await fetch\<close>. The snapshot is taken
  on a temporary canvas and changes nothing that is modelled here.
\<close>

definition predictionLoop :: "state \<Rightarrow> state" where
  "predictionLoop s =
     (if \<not> isDetecting s then s else s\<lparr>fetchPending := fetchPending s + 1\<rparr>)"

text \<open>The \<open>try\<close> block resumed when \<open>fetch\<close> settles: lines 102 to 113, up to \<open>await response.json()\<close>.\<close>

definition predictionLoop_fetched :: "fetch_outcome \<Rightarrow> state \<Rightarrow> error + state" where
  "predictionLoop_fetched r s =
     (case r of
        NetworkFailure \<Rightarrow> Inl TypeError
      | Response status \<Rightarrow>
          if \<not> response_ok status then Inl (HttpError status)
          else Inr (s\<lparr>bodyPending := bodyPending s + 1\<rparr>))"

text \<open>The \<open>try\<close> block resumed when \<open>response.json()\<close> settles: the assignment of line 113.\<close>

definition predictionLoop_body :: "body_outcome \<Rightarrow> state \<Rightarrow> error + state" where
  "predictionLoop_body r s =
     (case r of
        Malformed \<Rightarrow> Inl SyntaxError
      | Parsed predictions \<Rightarrow> Inr (s\<lparr>latestPredictions := predictions\<rparr>))"

text \<open>The \<open>catch\<close> block (lines 115 to 118) applied to what the \<open>try\<close> block did from state \<open>s\<close>.\<close>

definition predictionLoop_catch :: "state \<Rightarrow> error + state \<Rightarrow> state" where
  "predictionLoop_catch s r =
     (case r of Inl err \<Rightarrow> s\<lparr>latestPredictions := JArr []\<rparr> | Inr s' \<Rightarrow> s')"

section \<open>The page as an event-driven system\<close>

text \<open>
  The script is single-threaded: each event below runs one piece of code to completion.
  An event that cannot happen in a state (a click on a disabled button, a promise settling
  that nobody awaits, a timer that is not set) leaves the state as it is. An animation
  frame runs every callback queued for it; callbacks queued meanwhile wait for the next one.
\<close>

datatype event =
    ClickStart
  | ClickStop
  | CameraGranted nat
  | CameraDenied
  | LoadedMetadata
  | AnimationFrame
  | TimerFired nat
  | FetchSettled fetch_outcome
  | BodySettled body_outcome

fun step :: "browser \<Rightarrow> event \<Rightarrow> state \<Rightarrow> state" where
  "step b ClickStart s = (if startDisabled s then s else startDetection s)"
| "step b ClickStop s = (if stopDisabled s then s else stopDetection s)"
| "step b (CameraGranted sid) s =
     (if gumPending s = 0 then s
      else startDetection_granted sid
             (s\<lparr>gumPending := gumPending s - 1, liveTracks := insert sid (liveTracks s)\<rparr>))"
| "step b CameraDenied s =
     (if gumPending s = 0 then s
      else startDetection_denied (s\<lparr>gumPending := gumPending s - 1\<rparr>))"
| "step b LoadedMetadata s =
     (if videoSrc s = None then s else (on_loadedmetadata ^^ metadataListeners s) s)"
| "step b AnimationFrame s = (renderLoop b ^^ rafQueue s) (s\<lparr>rafQueue := 0\<rparr>)"
| "step b (TimerFired i) s = (if i \<in> timers s then predictionLoop s else s)"
| "step b (FetchSettled r) s =
     (if fetchPending s = 0 then s
      else let s1 = s\<lparr>fetchPending := fetchPending s - 1\<rparr>
           in predictionLoop_catch s1 (predictionLoop_fetched r s1))"
| "step b (BodySettled r) s =
     (if bodyPending s = 0 then s
      else let s1 = s\<lparr>bodyPending := bodyPending s - 1\<rparr>
           in predictionLoop_catch s1 (predictionLoop_body r s1))"

definition run :: "browser \<Rightarrow> event list \<Rightarrow> state \<Rightarrow> state" where
  "run b es s = fold (step b) es s"

text \<open>
  The state when the script has been loaded: the initial values of lines 14 to 17 and a
  fresh canvas context with the defaults of the Canvas API. The initial status text and
  button states come from the page's markup and are parameters.
\<close>

definition page_load :: "string \<Rightarrow> bool \<Rightarrow> bool \<Rightarrow> state" where
  "page_load status0 start0 stop0 =
     \<lparr>stream = None, isDetecting = False, latestPredictions = JArr [],
      predictionIntervalId = None, statusText = status0,
      startDisabled = start0, stopDisabled = stop0, videoSrc = None,
      metadataListeners = 0,
      ctx = \<lparr>strokeStyle = ''#000000'', fillStyle = ''#000000'', lineWidth = 1,
              font = ''10px sans-serif'', surface = []\<rparr>,
      liveTracks = {}, timers = {}, nextTimer = 1, rafQueue = 0,
      gumPending = 0, fetchPending = 0, bodyPending = 0, cleanupCalls = []\<rparr>"

text \<open>
  A value \<open>drawPredictions\<close> draws without an exception: an array none of whose elements
  makes line 126 throw.
\<close>

definition renderable :: "json \<Rightarrow> bool" where
  "renderable v = (case v of JArr ps \<Rightarrow> list_all (\<lambda>p. \<not> elem_throws p) ps | _ \<Rightarrow> False)"


text \<open>Colours of the rectangles stroked on a surface, in drawing order.\<close>

fun stroke_colors :: "draw_op list \<Rightarrow> string list" where
  "stroke_colors [] = []"
| "stroke_colors (StrokeRect x y w h col lw # ops) = col # stroke_colors ops"
| "stroke_colors (_ # ops) = stroke_colors ops"

section \<open>Concrete inputs\<close>

text \<open>
  The response body \<open>{"box": [10, 20, 30, 40], "label": "Original", "confidence": 0.97}\<close>
  as a JSON value.
\<close>

definition example_detection :: json where
  "example_detection =
     JObj [(''box'', JArr [JNum 10, JNum 20, JNum 30, JNum 40]),
           (''label'', JStr ''Original''), (''confidence'', JNum (97 / 100))]"

text \<open>
  A text measurement for the examples: every character is 9 pixels wide in
  \<open>18px Arial\<close> and 5 pixels wide in any other font.
\<close>

definition example_measure :: "string \<Rightarrow> string \<Rightarrow> real" where
  "example_measure fnt txt = (if fnt = ''18px Arial'' then 9 else 5) * real (length txt)"

text \<open>A browser for the examples; none of them draws an element of another type.\<close>

definition example_browser :: browser where
  "example_browser = \<lparr>measureText = example_measure, coerced = (\<lambda>p c. c)\<rparr>"

text \<open>A freshly loaded page: no status text yet, start enabled, stop disabled.\<close>

definition fresh_page :: state where
  "fresh_page = page_load [] False True"

text \<open>A session that has started: the camera was granted and the video has loaded.\<close>

definition active_session :: state where
  "active_session = run example_browser [ClickStart, CameraGranted 1, LoadedMetadata] fresh_page"

text \<open>
  The active session after one prediction cycle has delivered \<open>example_detection\<close> and the
  next request has been sent.
\<close>

definition showing_detection :: state where
  "showing_detection =
     run example_browser
       [TimerFired 1, FetchSettled (Response 200),
        BodySettled (Parsed (JArr [example_detection])), TimerFired 1] active_session"

text \<open>The active session stopped while its first prediction request is still outstanding.\<close>

definition stopped_in_flight :: state where
  "stopped_in_flight = run example_browser [TimerFired 1, ClickStop] active_session"


text \<open>
  A finished session followed by a start that was stopped while the camera request was
  pending: no session is active, the request is still outstanding.
\<close>

definition stopped_while_pending :: state where
  "stopped_while_pending = run example_browser [ClickStop, ClickStart, ClickStop] active_session"

section \<open>The exponent used in rounding\<close>

text \<open>\<open>exponent2\<close> finds the binade of a positive real.\<close>

lemma bit_length_bounds:
  "0 < n \<Longrightarrow> 2 ^ (bit_length n - 1) \<le> n \<and> n < 2 ^ bit_length n"
proof (induction n rule: bit_length.induct)
  case (1 n)
  show ?case
  proof (cases "n div 2 = 0")
    case True
    with 1(2) have "n = 1" by (cases n) auto
    then show ?thesis by (simp add: bit_length.simps)
  next
    case False
    then have pos: "0 < n div 2" by simp
    from 1(2) have n0: "n \<noteq> 0" by simp
    from 1(1) [OF n0 pos]
    have lo: "2 ^ (bit_length (n div 2) - 1) \<le> n div 2"
      and hi: "n div 2 < 2 ^ bit_length (n div 2)" by simp_all
    have bl: "bit_length n = Suc (bit_length (n div 2))"
      using n0 by (subst bit_length.simps) simp
    have blpos: "0 < bit_length (n div 2)"
      using pos by (subst bit_length.simps) simp
    then obtain k where k: "bit_length (n div 2) = Suc k" by (cases "bit_length (n div 2)") auto
    from lo k have "2 ^ k \<le> n div 2" by simp
    then have "2 * 2 ^ k \<le> n" by linarith
    moreover from hi k have "n div 2 < 2 * 2 ^ k" by simp
    then have "n < 2 * (2 * 2 ^ k)" by linarith
    ultimately show ?thesis by (simp add: bl k)
  qed
qed

lemma exponent2_bounds:
  assumes "0 < a"
  shows "pow2 (exponent2 a) \<le> a \<and> a < pow2 (exponent2 a + 1)"
proof (cases "1 \<le> a")
  case True
  let ?n = "nat \<lfloor>a\<rfloor>"
  have npos: "0 < ?n" using True by simp
  note bb = bit_length_bounds [OF npos]
  obtain k where k: "bit_length ?n = Suc k"
    using npos by (cases "bit_length ?n") (auto simp: bit_length.simps [of "nat \<lfloor>a\<rfloor>"])
  have e: "exponent2 a = int k" using True by (simp add: exponent2_def k)
  from bb k have lo: "2 ^ k \<le> ?n" and hi: "?n < 2 ^ Suc k" by simp_all
  have "real ?n \<le> a" using True by simp
  moreover have "(2::real) ^ k \<le> real ?n" using lo by (metis of_nat_le_iff of_nat_numeral of_nat_power)
  ultimately have l: "2 ^ k \<le> a" by linarith
  have "?n + 1 \<le> 2 ^ Suc k" using hi by simp
  then have "real (?n + 1) \<le> 2 ^ Suc k" by (metis of_nat_le_iff of_nat_numeral of_nat_power)
  moreover have "a < real (?n + 1)" using True by simp linarith
  ultimately have h: "a < 2 ^ Suc k" by linarith
  show ?thesis using l h by (simp add: e pow2_def nat_add_distrib)
next
  case False
  let ?y = "1 / a"
  let ?n = "nat (\<lceil>?y\<rceil> - 1)"
  have y1: "1 < ?y" using False assms by simp
  then have c2: "2 \<le> \<lceil>?y\<rceil>" by linarith
  then have npos: "0 < ?n" by simp
  note bb = bit_length_bounds [OF npos]
  obtain k where k: "bit_length ?n = Suc k"
    using npos by (cases "bit_length ?n") (auto simp: bit_length.simps [of "nat (\<lceil>1 / a\<rceil> - 1)"])
  have e: "exponent2 a = - int (Suc k)" using False by (simp add: exponent2_def k)
  from bb k have lo: "2 ^ k \<le> ?n" and hi: "?n < 2 ^ Suc k" by simp_all
  have "0 \<le> \<lceil>?y\<rceil> - 1" using c2 by linarith
  then have "real ?n = of_int (\<lceil>?y\<rceil> - 1)" by (rule of_nat_nat)
  then have rn: "real ?n = of_int \<lceil>?y\<rceil> - 1" by simp
  have "(2::real) ^ k \<le> real ?n" using lo by (metis of_nat_le_iff of_nat_numeral of_nat_power)
  moreover have "real ?n < ?y" unfolding rn by linarith
  ultimately have ylo: "2 ^ k < ?y" by linarith
  have "?n + 1 \<le> 2 ^ Suc k" using hi by simp
  then have "real (?n + 1) \<le> 2 ^ Suc k" by (metis of_nat_le_iff of_nat_numeral of_nat_power)
  moreover have "?y \<le> real (?n + 1)" using rn by simp
  ultimately have yhi: "?y \<le> 2 ^ Suc k" by linarith
  have p: "(0::real) < 2 ^ k" "(0::real) < 2 ^ Suc k" by simp_all
  from yhi assms p have l: "1 / 2 ^ Suc k \<le> a"
    by (simp add: field_simps)
  from ylo assms p have h: "a < 1 / 2 ^ k"
    by (simp add: field_simps)
  show ?thesis
  proof (cases k)
    case 0
    then show ?thesis using l h by (simp add: e pow2_def)
  next
    case (Suc j)
    then show ?thesis using l h by (simp add: e pow2_def nat_add_distrib)
  qed
qed

section \<open>Basic facts about the handlers\<close>

lemma stopDetection_eq:
  \<open>stopDetection s =
     s\<lparr>isDetecting := False, startDisabled := False, stopDisabled := True,
       statusText := ''Click "Start Detection" to begin.'',
       timers := (case predictionIntervalId s of None \<Rightarrow> timers s | Some n \<Rightarrow> timers s - {n}),
       liveTracks := (case stream s of None \<Rightarrow> liveTracks s | Some sid \<Rightarrow> liveTracks s - {sid}),
       cleanupCalls := cleanupCalls s @ [ClearIntervalCall (predictionIntervalId s)] @
         (case stream s of None \<Rightarrow> [] | Some sid \<Rightarrow> [TrackStopCall sid]),
       videoSrc := None, latestPredictions := JArr [],
       ctx := (ctx s)\<lparr>surface := []\<rparr>\<rparr>\<close>
  by (simp add: stopDetection_def clearInterval_def stopTracks_def clearRect_def Let_def
      split: option.splits)

lemmas event_defs =
  startDetection_def startDetection_granted_def startDetection_denied_def stopDetection_eq
  predictionLoop_def predictionLoop_fetched_def predictionLoop_body_def predictionLoop_catch_def

text \<open>The overlay renderer throws exactly on the values that are not renderable.\<close>

lemma forEach_draw_completes:
  "snd (forEach_draw b ps c) = None \<longleftrightarrow> list_all (\<lambda>p. \<not> elem_throws p) ps"
  by (induction ps arbitrary: c) (simp_all add: draw_elem_def split: option.splits)

lemma drawPredictions_completes:
  "snd (drawPredictions b v s) = None \<longleftrightarrow> renderable v"
proof (cases v)
  case (JArr ps)
  have "snd (forEach_draw b ps (ctx s)) = None \<longleftrightarrow> list_all (\<lambda>p. \<not> elem_throws p) ps"
    by (rule forEach_draw_completes)
  then show ?thesis
    using JArr
    by (cases "forEach_draw b ps (ctx s)")
      (auto simp: drawPredictions_def renderable_def Let_def split: option.splits)
qed (simp_all add: drawPredictions_def renderable_def)

text \<open>It touches the canvas context and the status text only.\<close>

lemma drawPredictions_frame:
  "\<exists>c t. fst (drawPredictions b v s) = s\<lparr>ctx := c, statusText := t\<rparr>"
proof (cases v)
  case (JArr ps)
  obtain c r where fe: "forEach_draw b ps (ctx s) = (c, r)" by (cases "forEach_draw b ps (ctx s)")
  show ?thesis
  proof (cases r)
    case None
    have "fst (drawPredictions b v s) =
        s\<lparr>ctx := c, statusText := (if isDetecting s
             then (if length ps > 0 then ''Detection active.'' else ''No face detected. Looking...'')
             else statusText s)\<rparr>"
      using JArr fe None by (simp add: drawPredictions_def Let_def)
    then show ?thesis by blast
  next
    case (Some err)
    have "fst (drawPredictions b v s) = s\<lparr>ctx := c, statusText := statusText s\<rparr>"
      using JArr fe Some by (simp add: drawPredictions_def)
    then show ?thesis by blast
  qed
next
  case JNull
  have "fst (drawPredictions b v s) = s\<lparr>ctx := ctx s, statusText := statusText s\<rparr>"
    using JNull by (simp add: drawPredictions_def)
  then show ?thesis by blast
next
  case (JBool x)
  have "fst (drawPredictions b v s) = s\<lparr>ctx := ctx s, statusText := statusText s\<rparr>"
    using JBool by (simp add: drawPredictions_def)
  then show ?thesis by blast
next
  case (JNum x)
  have "fst (drawPredictions b v s) = s\<lparr>ctx := ctx s, statusText := statusText s\<rparr>"
    using JNum by (simp add: drawPredictions_def)
  then show ?thesis by blast
next
  case (JStr x)
  have "fst (drawPredictions b v s) = s\<lparr>ctx := ctx s, statusText := statusText s\<rparr>"
    using JStr by (simp add: drawPredictions_def)
  then show ?thesis by blast
next
  case (JObj x)
  have "fst (drawPredictions b v s) = s\<lparr>ctx := ctx s, statusText := statusText s\<rparr>"
    using JObj by (simp add: drawPredictions_def)
  then show ?thesis by blast
qed

text \<open>The render loop written with the two components of what \<open>drawPredictions\<close> returns.\<close>

lemma renderLoop_eq:
  "renderLoop b s =
     (if \<not> isDetecting s then s
      else let s1 = s\<lparr>ctx := drawImage (videoSrc s) (ctx s)\<rparr>;
               r = drawPredictions b (latestPredictions s1) s1
           in if snd r = None then (fst r)\<lparr>rafQueue := rafQueue (fst r) + 1\<rparr> else fst r)"
  by (simp add: renderLoop_def Let_def split: prod.splits option.splits)

lemma renderLoop_frame:
  "\<exists>c t q. renderLoop b s = s\<lparr>ctx := c, statusText := t, rafQueue := q\<rparr>"
proof (cases "isDetecting s")
  case False
  have "renderLoop b s = s\<lparr>ctx := ctx s, statusText := statusText s, rafQueue := rafQueue s\<rparr>"
    using False by (simp add: renderLoop_def)
  then show ?thesis by blast
next
  case True
  let ?s1 = "s\<lparr>ctx := drawImage (videoSrc s) (ctx s)\<rparr>"
  let ?r = "drawPredictions b (latestPredictions ?s1) ?s1"
  obtain c t where f: "fst ?r = ?s1\<lparr>ctx := c, statusText := t\<rparr>"
    using drawPredictions_frame by blast
  show ?thesis
  proof (cases "snd ?r = None")
    case True
    have "renderLoop b s = s\<lparr>ctx := c, statusText := t, rafQueue := rafQueue s + 1\<rparr>"
      using \<open>isDetecting s\<close> True f by (simp add: renderLoop_eq Let_def)
    then show ?thesis by blast
  next
    case False
    have "renderLoop b s = s\<lparr>ctx := c, statusText := t, rafQueue := rafQueue s\<rparr>"
      using \<open>isDetecting s\<close> False f by (simp add: renderLoop_eq Let_def)
    then show ?thesis by blast
  qed
qed


lemma renderLoop_isDetecting: "isDetecting (renderLoop b s) = isDetecting s"
proof -
  obtain c t q where "renderLoop b s = s\<lparr>ctx := c, statusText := t, rafQueue := q\<rparr>"
    using renderLoop_frame by blast
  then show ?thesis by simp
qed

lemma renderLoop_latest: "latestPredictions (renderLoop b s) = latestPredictions s"
proof -
  obtain c t q where "renderLoop b s = s\<lparr>ctx := c, statusText := t, rafQueue := q\<rparr>"
    using renderLoop_frame by blast
  then show ?thesis by simp
qed


lemma renderLoop_dies:
  assumes "isDetecting s" and "\<not> renderable (latestPredictions s)"
  shows "rafQueue (renderLoop b s) = rafQueue s"
proof -
  let ?s1 = "s\<lparr>ctx := drawImage (videoSrc s) (ctx s)\<rparr>"
  let ?r = "drawPredictions b (latestPredictions ?s1) ?s1"
  obtain c t where f: "fst ?r = ?s1\<lparr>ctx := c, statusText := t\<rparr>"
    using drawPredictions_frame by blast
  have "snd ?r \<noteq> None" using assms(2) by (simp add: drawPredictions_completes)
  then show ?thesis using assms(1) f by (simp add: renderLoop_eq Let_def)
qed

lemma renderLoop_pow_isDetecting: "isDetecting ((renderLoop b ^^ n) s) = isDetecting s"
  by (induction n) (simp_all add: renderLoop_isDetecting)

lemma renderLoop_pow_latest: "latestPredictions ((renderLoop b ^^ n) s) = latestPredictions s"
  by (induction n) (simp_all add: renderLoop_latest)




lemma on_loadedmetadata_pow_latest:
  "latestPredictions ((on_loadedmetadata ^^ n) s) = latestPredictions s"
  by (induction n) (simp_all add: on_loadedmetadata_def setInterval_def Let_def)

lemma on_loadedmetadata_pow_isDetecting:
  "isDetecting ((on_loadedmetadata ^^ n) s) = isDetecting s"
  by (induction n) (simp_all add: on_loadedmetadata_def setInterval_def Let_def)



text \<open>Once the flag is set, only \<open>stopDetection\<close> clears it.\<close>

lemma step_keeps_active:
  "e = ClickStop \<or> e = CameraDenied \<or> isDetecting (step b e s) = isDetecting s \<or>
   (e = ClickStart \<and> isDetecting (step b e s))"
proof (cases e)
  case AnimationFrame
  then show ?thesis by (simp add: renderLoop_pow_isDetecting)
next
  case LoadedMetadata
  then show ?thesis by (simp add: on_loadedmetadata_pow_isDetecting)
next
  case (FetchSettled r)
  then show ?thesis
    by (cases r) (simp_all add: predictionLoop_catch_def predictionLoop_fetched_def Let_def)
next
  case (BodySettled r)
  then show ?thesis
    by (cases r) (simp_all add: predictionLoop_catch_def predictionLoop_body_def Let_def)
qed (simp_all add: event_defs Let_def)

lemma on_loadedmetadata_slot:
  "on_loadedmetadata (s\<lparr>latestPredictions := p\<rparr>) =
   (on_loadedmetadata s)\<lparr>latestPredictions := p\<rparr>"
  by (simp add: on_loadedmetadata_def setInterval_def Let_def)

lemma on_loadedmetadata_pow_slot:
  "(on_loadedmetadata ^^ n) (s\<lparr>latestPredictions := p\<rparr>) =
   ((on_loadedmetadata ^^ n) s)\<lparr>latestPredictions := p\<rparr>"
  by (induction n) (simp_all add: on_loadedmetadata_slot)

text \<open>Only a stop and the two halves of a prediction response can change the slot.\<close>

lemma step_slot_unchanged:
  "e = ClickStop \<or> e = CameraDenied \<or> (\<exists>r. e = FetchSettled r) \<or> (\<exists>r. e = BodySettled r) \<or>
   latestPredictions (step b e s) = latestPredictions s"
  by (cases e)
    (simp_all add: startDetection_def startDetection_granted_def predictionLoop_def Let_def
      on_loadedmetadata_pow_latest renderLoop_pow_latest)

text \<open>Apart from an animation frame, what an event does to the rest of the state does not
  depend on what the slot holds.\<close>

lemma step_slot_unread:
  "e = AnimationFrame \<or>
   (step b e (s\<lparr>latestPredictions := p\<rparr>))\<lparr>latestPredictions := q\<rparr> =
   (step b e s)\<lparr>latestPredictions := q\<rparr>"
proof (cases e)
  case LoadedMetadata
  then show ?thesis by (simp add: on_loadedmetadata_pow_slot)
next
  case (FetchSettled r)
  then show ?thesis
    by (cases r) (simp_all add: predictionLoop_catch_def predictionLoop_fetched_def Let_def)
next
  case (BodySettled r)
  then show ?thesis
    by (cases r) (simp_all add: predictionLoop_catch_def predictionLoop_body_def Let_def)
qed (simp_all add: event_defs Let_def split: option.splits)

text \<open>
  Drawing one detection reads the context's font (for the width of the label background)
  and nothing else of the context, and leaves the font at \<open>18px Arial\<close>.
\<close>

lemma draw_pred_font: "font (draw_pred m d c) = ''18px Arial''"
  by (cases "box d")
    (simp add: draw_pred_def strokeRect_def fillRect_def fillText_def Let_def)

lemma draw_pred_depends:
  "font c = font c' \<Longrightarrow> surface c = surface c' \<Longrightarrow> draw_pred m d c = draw_pred m d c'"
  by (cases "box d")
    (simp add: draw_pred_def strokeRect_def fillRect_def fillText_def Let_def)

lemma fold_draw_pred_font:
  "ds \<noteq> [] \<Longrightarrow> font (fold (draw_pred m) ds c) = ''18px Arial''"
proof (induction ds arbitrary: c)
  case Nil
  then show ?case by simp
next
  case (Cons d ds)
  show ?case
  proof (cases "ds = []")
    case True
    then show ?thesis by (simp add: draw_pred_font)
  next
    case False
    then show ?thesis using Cons.IH by simp
  qed
qed

lemma fold_draw_pred_depends:
  assumes "font c = font c'" and "surface c = surface c'" and "ds \<noteq> []"
  shows "fold (draw_pred m) ds c = fold (draw_pred m) ds c'"
proof -
  from assms(3) obtain d ds' where ds: "ds = d # ds'" by (cases ds) auto
  have "draw_pred m d c = draw_pred m d c'" using assms(1,2) by (rule draw_pred_depends)
  then show ?thesis by (simp add: ds)
qed

text \<open>
  Once the context's font is \<open>18px Arial\<close> (as it is after any detection has been
  drawn), drawing a list of detections on the cleared canvas, clearing and drawing it again
  paints the same display list.
\<close>

lemma render_repeatable_with_font_set:
  assumes "font c = ''18px Arial''"
  shows "surface (fold (draw_pred m) ds (clearRect (fold (draw_pred m) ds (clearRect c)))) =
         surface (fold (draw_pred m) ds (clearRect c))"
proof (cases "ds = []")
  case True
  then show ?thesis by (simp add: clearRect_def)
next
  case False
  let ?c1 = "fold (draw_pred m) ds (clearRect c)"
  have "font (clearRect ?c1) = font (clearRect c)"
    using assms False by (simp add: clearRect_def fold_draw_pred_font)
  moreover have "surface (clearRect ?c1) = surface (clearRect c)"
    by (simp add: clearRect_def)
  ultimately have "fold (draw_pred m) ds (clearRect ?c1) = fold (draw_pred m) ds (clearRect c)"
    using False by (rule fold_draw_pred_depends)
  then show ?thesis by simp
qed

text \<open>The binary64 arithmetic of the example: 0.97 times 100 is 97 exactly.\<close>

lemma fl64_small_integers:
  "fl64 10 = 10" "fl64 15 = 15" "fl64 20 = 20" "fl64 30 = 30" "fl64 40 = 40"
  by code_simp+

lemma fl64_percent_example: "fl64 (fl64 (97 / 100) * 100) = 97"
  by code_simp

lemma example_as_detection:
  "as_detection
     (JObj [(''box'', JArr [JNum 10, JNum 20, JNum 30, JNum 40]),
            (''label'', JStr ''Original''), (''confidence'', JNum (97 / 100))]) =
   Some \<lparr>box = (10, 20, 30, 40), label = ''Original'', confidence = fl64 (97 / 100)\<rparr>"
  by (simp add: as_detection_def get_prop_def fl64_small_integers)

lemma example_does_not_throw:
  "\<not> elem_throws
     (JObj [(''box'', JArr [JNum 10, JNum 20, JNum 30, JNum 40]),
            (''label'', JStr ''Original''), (''confidence'', JNum (97 / 100))])"
  by (simp add: elem_throws_def get_prop_def)

lemma draw_pred_example:
  "surface (draw_pred m
      \<lparr>box = (10, 20, 30, 40), label = ''Original'', confidence = fl64 (97 / 100)\<rparr> c) =
   surface c @
     [StrokeRect 10 20 30 40 ''#00FF00'' 3,
      FillRect 10 20 (fl64 (m (font c) ''Original: 97%'' + 10)) 24 ''#00FF00'',
      FillText ''Original: 97%'' 15 18 ''#FFFFFF'' ''18px Arial'']"
  by (simp add: draw_pred_def strokeRect_def fillRect_def fillText_def Let_def
      fl64_percent_example fl64_small_integers js_round_def js_int_string_def show_nat.simps)

section \<open>Prediction loop: failures\<close>

text \<open>
  C2. A prediction cycle whose request fails in transport, or whose response has a
  non-success status, clears the detection slot whatever it held. Nothing else changes but
  the request being over: no new request is sent (no retry), no body is read, the timer
  stays set and the session flag stays as it was, so the next timer tick of an active
  session sends the next request. In particular a response with status 500 leaves the slot
  empty.
\<close>

theorem prediction_failure_clears_slot:
  assumes "0 < fetchPending s"
    and "r = NetworkFailure \<or> (\<exists>status. r = Response status \<and> \<not> response_ok status)"
  shows "step b (FetchSettled r) s =
           s\<lparr>fetchPending := fetchPending s - 1, latestPredictions := JArr []\<rparr> \<and>
         latestPredictions (step b (FetchSettled r) s) = JArr [] \<and>
         latestPredictions (step b (FetchSettled (Response 500)) s) = JArr [] \<and>
         fetchPending (step b (FetchSettled r) s) = fetchPending s - 1 \<and>
         bodyPending (step b (FetchSettled r) s) = bodyPending s \<and>
         timers (step b (FetchSettled r) s) = timers s \<and>
         isDetecting (step b (FetchSettled r) s) = isDetecting s \<and>
         (isDetecting s \<and> i \<in> timers s \<longrightarrow>
            fetchPending (step b (TimerFired i) (step b (FetchSettled r) s)) = fetchPending s)"
proof -
  have eq: "step b (FetchSettled r) s =
      s\<lparr>fetchPending := fetchPending s - 1, latestPredictions := JArr []\<rparr>"
    using assms by (auto simp: predictionLoop_catch_def predictionLoop_fetched_def Let_def)
  have "\<not> response_ok 500" by (simp add: response_ok_def)
  then have e500: "latestPredictions (step b (FetchSettled (Response 500)) s) = JArr []"
    using assms(1) by (simp add: predictionLoop_catch_def predictionLoop_fetched_def Let_def)
  show ?thesis
    unfolding eq using e500 assms(1) by (intro conjI) (simp_all add: predictionLoop_def)
qed

theorem prediction_failure_clears_slot_witness:
  "0 < fetchPending showing_detection \<and> \<not> response_ok 500 \<and>
   latestPredictions showing_detection = JArr [example_detection] \<and>
   latestPredictions (step example_browser (FetchSettled (Response 500)) showing_detection) =
     JArr [] \<and>
   fetchPending (step example_browser (FetchSettled (Response 500)) showing_detection) = 0 \<and>
   timers (step example_browser (FetchSettled (Response 500)) showing_detection) = {1}"
proof -
  let ?s' = "step example_browser (FetchSettled (Response 500)) showing_detection"
  have h1: "0 < fetchPending showing_detection" by code_simp
  have h2: "\<not> response_ok 500" by code_simp
  have h3: "latestPredictions showing_detection = JArr [example_detection]" by code_simp
  have h4: "fetchPending showing_detection = 1" by code_simp
  have h5: "timers showing_detection = {1}" by code_simp
  from h2 have h2': "Response 500 = NetworkFailure \<or>
      (\<exists>status. Response 500 = Response status \<and> \<not> response_ok status)"
    by blast
  note t = prediction_failure_clears_slot [OF h1 h2', of example_browser]
  from t have a: "latestPredictions ?s' = JArr []" by blast
  from t have "fetchPending ?s' = fetchPending showing_detection - 1" by blast
  with h4 have b: "fetchPending ?s' = 0" by simp
  from t have "timers ?s' = timers showing_detection" by blast
  with h5 have c: "timers ?s' = {1}" by simp
  from h1 h2 h3 a b c show ?thesis by blast
qed

text \<open>
  C10. A success-status response whose body is not JSON: \<open>response.json()\<close> rejects inside
  the \<open>try\<close> block, so the same \<open>catch\<close> block runs as for a network failure. The cycle
  ends with the slot empty, the timer still set and the session flag untouched; the state
  is the one a network failure of the same request would have left.
\<close>

theorem malformed_body_clears_slot:
  "(0 < bodyPending s \<longrightarrow>
      step b (BodySettled Malformed) s =
        s\<lparr>bodyPending := bodyPending s - 1, latestPredictions := JArr []\<rparr> \<and>
      latestPredictions (step b (BodySettled Malformed) s) = JArr [] \<and>
      timers (step b (BodySettled Malformed) s) = timers s \<and>
      isDetecting (step b (BodySettled Malformed) s) = isDetecting s) \<and>
   (0 < fetchPending s \<and> response_ok status \<longrightarrow>
      step b (BodySettled Malformed) (step b (FetchSettled (Response status)) s) =
      step b (FetchSettled NetworkFailure) s) \<and>
   predictionLoop_catch s (predictionLoop_body Malformed s) =
     predictionLoop_catch s (predictionLoop_fetched NetworkFailure s)"
  by (simp add: predictionLoop_catch_def predictionLoop_fetched_def predictionLoop_body_def Let_def)

theorem malformed_body_clears_slot_witness:
  "0 < fetchPending showing_detection \<and> response_ok 200 \<and>
   latestPredictions showing_detection = JArr [example_detection] \<and>
   0 < bodyPending (step example_browser (FetchSettled (Response 200)) showing_detection) \<and>
   latestPredictions
     (step example_browser (BodySettled Malformed)
        (step example_browser (FetchSettled (Response 200)) showing_detection)) = JArr [] \<and>
   step example_browser (BodySettled Malformed)
     (step example_browser (FetchSettled (Response 200)) showing_detection) =
   step example_browser (FetchSettled NetworkFailure) showing_detection"
proof -
  let ?s1 = "step example_browser (FetchSettled (Response 200)) showing_detection"
  have h1: "0 < fetchPending showing_detection" by code_simp
  have h2: "response_ok 200" by code_simp
  have h3: "latestPredictions showing_detection = JArr [example_detection]" by code_simp
  have h4: "0 < bodyPending ?s1" by code_simp
  from malformed_body_clears_slot [of ?s1 example_browser 200] h4
  have a: "latestPredictions (step example_browser (BodySettled Malformed) ?s1) = JArr []"
    by blast
  from malformed_body_clears_slot [of showing_detection example_browser 200] h1 h2
  have b: "step example_browser (BodySettled Malformed) ?s1 =
      step example_browser (FetchSettled NetworkFailure) showing_detection"
    by blast
  from h1 h2 h3 h4 a b show ?thesis by blast
qed

section \<open>Render loop\<close>




section \<open>Session controller: start\<close>

text \<open>
  C6, as the claim states it, fails. \<open>startDetection\<close> sets \<open>isDetecting\<close> in its first
  statement, before the camera is requested. On a fresh page, right after the click on
  start, the flag is true while no stream is held and the camera request is pending; this
  is the beginning of an execution in which the request is then denied.
\<close>

theorem active_before_camera_granted:
  "isDetecting (run example_browser [ClickStart] fresh_page) \<and>
   stream (run example_browser [ClickStart] fresh_page) = None \<and>
   gumPending (run example_browser [ClickStart] fresh_page) = 1 \<and>
   \<not> isDetecting (run example_browser [ClickStart, CameraDenied] fresh_page)"
  by code_simp

text \<open>
  C6, amended. A click on the enabled start button sets the active flag at once, before
  camera access is requested, and leaves \<open>stream\<close> holding what it held. From then on
  every event leaves the flag true except those that run \<open>stopDetection\<close>: a click on
  stop and the denial of a camera request. When a pending request is granted the stream
  is stored and the flag is left as it is; when it is denied the flag is false afterwards
  and \<open>stream\<close> is still what it was.
\<close>

theorem start_sets_active_at_once:
  "(\<not> startDisabled s \<longrightarrow>
      isDetecting (step b ClickStart s) \<and>
      stream (step b ClickStart s) = stream s \<and>
      gumPending (step b ClickStart s) = gumPending s + 1) \<and>
   (isDetecting s \<longrightarrow> e = ClickStop \<or> e = CameraDenied \<or> isDetecting (step b e s)) \<and>
   (0 < gumPending s \<longrightarrow>
      stream (step b (CameraGranted sid) s) = Some sid \<and>
      isDetecting (step b (CameraGranted sid) s) = isDetecting s) \<and>
   (0 < gumPending s \<longrightarrow>
      \<not> isDetecting (step b CameraDenied s) \<and>
      stream (step b CameraDenied s) = stream s) \<and>
   isDetecting (startDetection s) \<and>
   stream (startDetection s) = stream s \<and>
   \<not> isDetecting (startDetection_denied s)"
proof -
  have p1: "\<not> startDisabled s \<longrightarrow>
      isDetecting (step b ClickStart s) \<and>
      stream (step b ClickStart s) = stream s \<and>
      gumPending (step b ClickStart s) = gumPending s + 1"
    by (simp add: startDetection_def Let_def)
  have p2: "isDetecting s \<longrightarrow> e = ClickStop \<or> e = CameraDenied \<or> isDetecting (step b e s)"
    using step_keeps_active [where e = e and b = b and s = s] by blast
  have p3: "0 < gumPending s \<longrightarrow>
      stream (step b (CameraGranted sid) s) = Some sid \<and>
      isDetecting (step b (CameraGranted sid) s) = isDetecting s"
    by (simp add: startDetection_granted_def Let_def)
  have p4: "0 < gumPending s \<longrightarrow>
      \<not> isDetecting (step b CameraDenied s) \<and>
      stream (step b CameraDenied s) = stream s"
    by (simp add: startDetection_denied_def stopDetection_eq Let_def)
  have p5: "isDetecting (startDetection s) \<and> stream (startDetection s) = stream s \<and>
      \<not> isDetecting (startDetection_denied s)"
    by (simp add: event_defs Let_def)
  from p1 p2 p3 p4 p5 show ?thesis by blast
qed

theorem start_sets_active_at_once_witness:
  "\<not> startDisabled fresh_page \<and>
   isDetecting (step example_browser ClickStart fresh_page) \<and>
   stream (step example_browser ClickStart fresh_page) = stream fresh_page \<and>
   0 < gumPending (step example_browser ClickStart fresh_page) \<and>
   isDetecting (step example_browser (TimerFired 1)
      (step example_browser ClickStart fresh_page)) \<and>
   stream (step example_browser (CameraGranted 1)
      (step example_browser ClickStart fresh_page)) = Some 1 \<and>
   \<not> isDetecting (step example_browser CameraDenied
      (step example_browser ClickStart fresh_page))"
proof -
  let ?s1 = "step example_browser ClickStart fresh_page"
  have h1: "\<not> startDisabled fresh_page" by code_simp
  have ne: "TimerFired 1 \<noteq> ClickStop" "TimerFired 1 \<noteq> CameraDenied" by simp_all
  from start_sets_active_at_once [where s = fresh_page and b = example_browser] h1
  have a: "isDetecting ?s1" and b: "stream ?s1 = stream fresh_page"
    and c: "gumPending ?s1 = gumPending fresh_page + 1"
    by blast+
  from c have d: "0 < gumPending ?s1" by simp
  from start_sets_active_at_once
    [where s = ?s1 and b = example_browser and e = "TimerFired 1" and sid = 1] a d ne
  have e: "isDetecting (step example_browser (TimerFired 1) ?s1)"
    and f: "stream (step example_browser (CameraGranted 1) ?s1) = Some 1"
    and g: "\<not> isDetecting (step example_browser CameraDenied ?s1)"
    by blast+
  from h1 a b d e f g show ?thesis by blast
qed

text \<open>
  C3. The claim says that after a denied camera request the status shows the permission
  error. The \<open>catch\<close> block writes that message and then calls \<open>stopDetection\<close>, whose
  fourth statement overwrites the status with the idle prompt. On a fresh page, after a
  click on start and a denied request, the status is the prompt and not the error
  message; the rollback the claim also asks for has happened (flag false, no stream, no
  timer, empty slot).
\<close>

theorem camera_denied_status_is_prompt:
  \<open>statusText (run example_browser [ClickStart, CameraDenied] fresh_page) =
     ''Click "Start Detection" to begin.'' \<and>
   statusText (run example_browser [ClickStart, CameraDenied] fresh_page) \<noteq>
     ''<strong>Error:</strong> Could not access webcam. Please check permissions.'' \<and>
   \<not> isDetecting (run example_browser [ClickStart, CameraDenied] fresh_page) \<and>
   stream (run example_browser [ClickStart, CameraDenied] fresh_page) = None \<and>
   timers (run example_browser [ClickStart, CameraDenied] fresh_page) = {} \<and>
   latestPredictions (run example_browser [ClickStart, CameraDenied] fresh_page) = JArr []\<close>
  by code_simp

section \<open>Session controller: stop\<close>

text \<open>
  C8, as the claim states it, fails: \<open>stopDetection\<close> makes its cleanup calls every time.
  It resets neither \<open>stream\<close> nor \<open>predictionIntervalId\<close>, so after a finished session
  the guard \<open>if (stream)\<close> still finds the old stream. Here a session was stopped, then
  started again and stopped while the camera request was pending; no session is active.
  When the request is now denied, \<open>stopDetection\<close> calls \<open>clearInterval\<close> on the old
  timer and \<open>stop()\<close> on the old stream's tracks a third time. The same holds for
  \<open>stopDetection\<close> run twice on the active session.
\<close>

theorem stop_repeats_cleanup_calls:
  "\<not> isDetecting stopped_while_pending \<and>
   liveTracks stopped_while_pending = {} \<and> timers stopped_while_pending = {} \<and>
   cleanupCalls stopped_while_pending =
     [ClearIntervalCall (Some 1), TrackStopCall 1, ClearIntervalCall (Some 1), TrackStopCall 1] \<and>
   cleanupCalls (step example_browser CameraDenied stopped_while_pending) =
     [ClearIntervalCall (Some 1), TrackStopCall 1, ClearIntervalCall (Some 1), TrackStopCall 1,
      ClearIntervalCall (Some 1), TrackStopCall 1] \<and>
   cleanupCalls (stopDetection active_session) =
     [ClearIntervalCall (Some 1), TrackStopCall 1] \<and>
   cleanupCalls (stopDetection (stopDetection active_session)) =
     [ClearIntervalCall (Some 1), TrackStopCall 1, ClearIntervalCall (Some 1), TrackStopCall 1]"
  by code_simp

text \<open>
  C8, amended. \<open>stopDetection\<close> is a total function of the state (nothing in it can
  raise), and it is idempotent in its effect: run twice it leaves the variables, the page,
  the canvas, the live tracks and the set timers as running it once leaves them; the two
  states differ at most in the log of cleanup calls. A second click on stop does nothing,
  the button being disabled. With no stream held it calls \<open>stop()\<close> on no track and
  leaves every track as it is. On a freshly loaded page it changes the two buttons and the
  status text, and its one cleanup call is \<open>clearInterval(null)\<close>.
\<close>

theorem stop_idempotent:
  \<open>stopDetection (stopDetection s) =
     (stopDetection s)\<lparr>cleanupCalls := cleanupCalls (stopDetection (stopDetection s))\<rparr> \<and>
   step b ClickStop (step b ClickStop s) = step b ClickStop s \<and>
   (stream s = None \<longrightarrow>
      liveTracks (stopDetection s) = liveTracks s \<and>
      cleanupCalls (stopDetection s) =
        cleanupCalls s @ [ClearIntervalCall (predictionIntervalId s)]) \<and>
   stopDetection (page_load txt en dis) =
     (page_load txt en dis)
       \<lparr>startDisabled := False, stopDisabled := True,
        statusText := ''Click "Start Detection" to begin.'',
        cleanupCalls := [ClearIntervalCall None]\<rparr>\<close>
proof -
  have p1: "stopDetection (stopDetection s) =
     (stopDetection s)\<lparr>cleanupCalls := cleanupCalls (stopDetection (stopDetection s))\<rparr>"
    by (simp add: stopDetection_eq split: option.splits)
  have p2: "step b ClickStop (step b ClickStop s) = step b ClickStop s"
    by (simp add: stopDetection_eq)
  have p3: "stream s = None \<longrightarrow>
      liveTracks (stopDetection s) = liveTracks s \<and>
      cleanupCalls (stopDetection s) =
        cleanupCalls s @ [ClearIntervalCall (predictionIntervalId s)]"
    by (simp add: stopDetection_eq)
  have p4: \<open>stopDetection (page_load txt en dis) =
     (page_load txt en dis)
       \<lparr>startDisabled := False, stopDisabled := True,
        statusText := ''Click "Start Detection" to begin.'',
        cleanupCalls := [ClearIntervalCall None]\<rparr>\<close>
    by (simp add: stopDetection_eq page_load_def)
  from p1 p2 p3 p4 show ?thesis by blast
qed

theorem stop_idempotent_witness:
  "stream fresh_page = None \<and>
   liveTracks (stopDetection fresh_page) = liveTracks fresh_page \<and>
   cleanupCalls (stopDetection fresh_page) = [ClearIntervalCall None] \<and>
   isDetecting showing_detection \<and> \<not> isDetecting (stopDetection showing_detection) \<and>
   stopDetection (stopDetection showing_detection) =
     (stopDetection showing_detection)
       \<lparr>cleanupCalls := cleanupCalls (stopDetection (stopDetection showing_detection))\<rparr>"
proof -
  have h: "stream fresh_page = None" by code_simp
  have h': "cleanupCalls fresh_page = []" "predictionIntervalId fresh_page = None"
    by code_simp+
  have i: "isDetecting showing_detection" by code_simp
  have j: "\<not> isDetecting (stopDetection showing_detection)" by (simp add: stopDetection_eq)
  from stop_idempotent [where s = fresh_page] h
  have k: "liveTracks (stopDetection fresh_page) = liveTracks fresh_page"
    and k': "cleanupCalls (stopDetection fresh_page) =
      cleanupCalls fresh_page @ [ClearIntervalCall (predictionIntervalId fresh_page)]"
    by blast+
  from k' h' have k'': "cleanupCalls (stopDetection fresh_page) = [ClearIntervalCall None]"
    by simp
  from stop_idempotent [where s = showing_detection]
  have l: "stopDetection (stopDetection showing_detection) =
     (stopDetection showing_detection)
       \<lparr>cleanupCalls := cleanupCalls (stopDetection (stopDetection showing_detection))\<rparr>"
    by blast
  from h i j k k'' l show ?thesis by blast
qed

section \<open>The detection slot\<close>

text \<open>
  C7, as the claim states it, fails: the session controller writes the slot as well.
  With a detection in the slot, a click on stop (no activation of the prediction loop)
  empties it.
\<close>

theorem stop_writes_slot:
  "latestPredictions showing_detection = JArr [example_detection] \<and>
   latestPredictions (step example_browser ClickStop showing_detection) = JArr []"
  by code_simp

text \<open>
  C7, amended. The slot is written only by the prediction loop's response handling and by
  \<open>stopDetection\<close>, which empties it (on a click on stop and after a denied camera
  request); every other event leaves it as it is, the render loop included. It is read
  only by the render loop: for any event but an animation frame, the rest of the state
  after the event is the same whatever the slot held before.
\<close>

theorem slot_writers_and_reader:
  "(e = ClickStop \<or> e = CameraDenied \<or> (\<exists>r. e = FetchSettled r) \<or> (\<exists>r. e = BodySettled r) \<or>
      latestPredictions (step b e s) = latestPredictions s) \<and>
   (e = AnimationFrame \<or>
      (step b e (s\<lparr>latestPredictions := p\<rparr>))\<lparr>latestPredictions := q\<rparr> =
      (step b e s)\<lparr>latestPredictions := q\<rparr>) \<and>
   latestPredictions (stopDetection s) = JArr [] \<and>
   latestPredictions (renderLoop b s) = latestPredictions s"
proof -
  note p1 = step_slot_unchanged [where e = e and b = b and s = s]
  note p2 = step_slot_unread [where e = e and b = b and s = s and p = p and q = q]
  have p3: "latestPredictions (stopDetection s) = JArr []" by (simp add: stopDetection_eq)
  have p4: "latestPredictions (renderLoop b s) = latestPredictions s"
    by (rule renderLoop_latest)
  from p1 p2 p3 p4 show ?thesis by blast
qed

text \<open>
  C1. The claim says that a response arriving after a stop leaves the slot empty. The
  code checks \<open>isDetecting\<close> only before it sends the request; the code resumed after
  \<open>await\<close> assigns the slot unconditionally. A session is stopped with one request
  outstanding: the slot is empty and the flag false. The request then succeeds with one
  detection, and the slot holds that detection although the session is inactive. After
  the next start the first frame draws this box of the previous session.
\<close>

theorem late_response_refills_slot:
  "\<not> isDetecting stopped_in_flight \<and> latestPredictions stopped_in_flight = JArr [] \<and>
   fetchPending stopped_in_flight = 1 \<and>
   \<not> isDetecting (run example_browser
      [FetchSettled (Response 200), BodySettled (Parsed (JArr [example_detection]))]
      stopped_in_flight) \<and>
   latestPredictions (run example_browser
      [FetchSettled (Response 200), BodySettled (Parsed (JArr [example_detection]))]
      stopped_in_flight) = JArr [example_detection] \<and>
   StrokeRect 10 20 30 40 ''#00FF00'' 3 \<in> set (surface (ctx (run example_browser
      [FetchSettled (Response 200), BodySettled (Parsed (JArr [example_detection])),
       AnimationFrame, ClickStart, CameraGranted 2, LoadedMetadata, AnimationFrame]
      stopped_in_flight)))"
  by code_simp

section \<open>Overlay renderer\<close>

text \<open>
  C4. Rendering the list with the one detection
  \<open>{box: [10, 20, 30, 40], label: "Original", confidence: 0.97}\<close> throws nothing and adds
  to the canvas one stroked rectangle at (10, 20), 30 wide and 40 high, in \<open>#00FF00\<close>
  with line width 3, then the label background in the same colour and the text
  \<open>Original: 97%\<close> in white. \<open>#00FF00\<close> is the colour of the label \<open>Original\<close> alone:
  a detection with any other label is stroked in \<open>#FF0000\<close>.
\<close>

theorem draws_original_detection:
  "snd (drawPredictions b
      (JArr [JObj [(''box'', JArr [JNum 10, JNum 20, JNum 30, JNum 40]),
                   (''label'', JStr ''Original''), (''confidence'', JNum (97 / 100))]]) s) =
     None \<and>
   surface (ctx (fst (drawPredictions b
      (JArr [JObj [(''box'', JArr [JNum 10, JNum 20, JNum 30, JNum 40]),
                   (''label'', JStr ''Original''), (''confidence'', JNum (97 / 100))]]) s))) =
     surface (ctx s) @
       [StrokeRect 10 20 30 40 ''#00FF00'' 3,
        FillRect 10 20 (fl64 (measureText b (font (ctx s)) ''Original: 97%'' + 10)) 24
          ''#00FF00'',
        FillText ''Original: 97%'' 15 18 ''#FFFFFF'' ''18px Arial''] \<and>
   stroke_colors (surface (ctx (fst (drawPredictions b
      (JArr [JObj [(''box'', JArr [JNum 10, JNum 20, JNum 30, JNum 40]),
                   (''label'', JStr ''Original''), (''confidence'', JNum (97 / 100))]])
      (s\<lparr>ctx := clearRect (ctx s)\<rparr>))))) = [''#00FF00''] \<and>
   stroke_colors (surface (draw_pred m d (clearRect c))) =
     [if label d = ''Original'' then ''#00FF00'' else ''#FF0000''] \<and>
   ''#00FF00'' \<noteq> ''#FF0000''"
proof -
  let ?p = "JObj [(''box'', JArr [JNum 10, JNum 20, JNum 30, JNum 40]),
                  (''label'', JStr ''Original''), (''confidence'', JNum (97 / 100))]"
  let ?d = "\<lparr>box = (10, 20, 30, 40), label = ''Original'', confidence = fl64 (97 / 100)\<rparr>"
  have el: "draw_elem b ?p c' = Inr (draw_pred (measureText b) ?d c')" for c'
    using example_does_not_throw by (simp add: draw_elem_def example_as_detection)
  have dp: "drawPredictions b (JArr [?p]) s' =
      ((s'\<lparr>ctx := draw_pred (measureText b) ?d (ctx s')\<rparr>)
         \<lparr>statusText := (if isDetecting s' then ''Detection active.'' else statusText s')\<rparr>,
       None)" for s'
    by (simp add: drawPredictions_def el Let_def)
  have p1: "snd (drawPredictions b (JArr [?p]) s) = None" by (simp add: dp)
  have p2: "surface (ctx (fst (drawPredictions b (JArr [?p]) s))) =
     surface (ctx s) @
       [StrokeRect 10 20 30 40 ''#00FF00'' 3,
        FillRect 10 20 (fl64 (measureText b (font (ctx s)) ''Original: 97%'' + 10)) 24
          ''#00FF00'',
        FillText ''Original: 97%'' 15 18 ''#FFFFFF'' ''18px Arial'']"
    by (simp add: dp draw_pred_example)
  have p3: "stroke_colors (surface (ctx (fst (drawPredictions b (JArr [?p])
      (s\<lparr>ctx := clearRect (ctx s)\<rparr>))))) = [''#00FF00'']"
    by (simp add: dp draw_pred_example clearRect_def)
  have p4: "stroke_colors (surface (draw_pred m d (clearRect c))) =
     [if label d = ''Original'' then ''#00FF00'' else ''#FF0000'']"
    by (cases "box d")
      (simp add: draw_pred_def strokeRect_def fillRect_def fillText_def clearRect_def Let_def)
  have p5: "''#00FF00'' \<noteq> ''#FF0000''" by simp
  from p1 p2 p3 p4 p5 show ?thesis by blast
qed

text \<open>
  C5. The claim says that drawing a list twice, with the canvas cleared in between, paints
  the same pixels whatever the context's state was. \<open>drawPredictions\<close> measures the label
  text before it sets the font (line 139 before line 142), so the first label background
  is as wide as the text is in the font the context had. On a fresh page (font
  \<open>10px sans-serif\<close>) the first drawing of \<open>example_detection\<close> paints a background 75
  wide; after clearing, the second drawing paints it 127 wide.
\<close>

theorem first_render_differs:
  "surface (ctx (fst (drawPredictions example_browser (JArr [example_detection])
      (fresh_page\<lparr>ctx := clearRect (ctx fresh_page)\<rparr>)))) =
     [StrokeRect 10 20 30 40 ''#00FF00'' 3, FillRect 10 20 75 24 ''#00FF00'',
      FillText ''Original: 97%'' 15 18 ''#FFFFFF'' ''18px Arial''] \<and>
   surface (ctx (fst (drawPredictions example_browser (JArr [example_detection])
      ((fst (drawPredictions example_browser (JArr [example_detection])
          (fresh_page\<lparr>ctx := clearRect (ctx fresh_page)\<rparr>)))
       \<lparr>ctx := clearRect (ctx (fst (drawPredictions example_browser (JArr [example_detection])
          (fresh_page\<lparr>ctx := clearRect (ctx fresh_page)\<rparr>))))\<rparr>)))) =
     [StrokeRect 10 20 30 40 ''#00FF00'' 3, FillRect 10 20 127 24 ''#00FF00'',
      FillText ''Original: 97%'' 15 18 ''#FFFFFF'' ''18px Arial''] \<and>
   surface (ctx (fst (drawPredictions example_browser (JArr [example_detection])
      (fresh_page\<lparr>ctx := clearRect (ctx fresh_page)\<rparr>)))) \<noteq>
   surface (ctx (fst (drawPredictions example_browser (JArr [example_detection])
      ((fst (drawPredictions example_browser (JArr [example_detection])
          (fresh_page\<lparr>ctx := clearRect (ctx fresh_page)\<rparr>)))
       \<lparr>ctx := clearRect (ctx (fst (drawPredictions example_browser (JArr [example_detection])
          (fresh_page\<lparr>ctx := clearRect (ctx fresh_page)\<rparr>))))\<rparr>))))"
  by code_simp

end
